theory Spec2Isabelle
  imports Complex_Main "HOL-Library.AList"
begin

section \<open>JavaScript values\<close>

text \<open>
  Both source files are TypeScript and work on plain objects, so the embedding has one
  type of JavaScript values. Numbers are modelled as reals together with \<open>NaN\<close>
  (rounding of IEEE doubles, infinities and the sign of zero are not modelled). An object
  is an association list from property names to values; a property that is missing reads
  as \<open>Undefined\<close>. Functions are values too: \<open>External n\<close> is a function supplied from
  outside the two files (a user callback, the caller's completion callback, a \<open>mix\<close>
  method), known only by its identity \<open>n\<close>; the other two constructors are the two arrow
  functions that \<open>createMotionValueAnimation\<close> itself creates.
\<close>

datatype jsval =
    Undefined
  | Null
  | Bool bool
  | Num real
  | NaN
  | Str string
  | Arr "jsval list"
  | Obj "(string \<times> jsval) list"
  | Fun fn
and fn =
    External nat
  | OnUpdateClosure jsval
  | OnCompleteClosure jsval jsval

type_synonym obj = "(string \<times> jsval) list"

datatype error = TypeError | PreconditionViolation

text \<open>Truthiness, as \<open>||\<close>, \<open>&&\<close>, \<open>!\<close> and \<open>if\<close> read it.\<close>

fun truthy :: "jsval \<Rightarrow> bool" where
  "truthy Undefined = False"
| "truthy Null = False"
| "truthy (Bool b) = b"
| "truthy (Num r) = (r \<noteq> 0)"
| "truthy NaN = False"
| "truthy (Str s) = (s \<noteq> [])"
| "truthy (Arr xs) = True"
| "truthy (Obj ps) = True"
| "truthy (Fun f) = True"

text \<open>\<open>a || b\<close>: the first operand when it is truthy, the second otherwise.\<close>

definition js_or :: "jsval \<Rightarrow> jsval \<Rightarrow> jsval" where
  "js_or a b = (if truthy a then a else b)"

text \<open>Reading a property \<open>o.k\<close> of an object.\<close>

definition property :: "obj \<Rightarrow> string \<Rightarrow> jsval" where
  "property ps k = (case map_of ps k of None \<Rightarrow> Undefined | Some v \<Rightarrow> v)"

text \<open>The assignment \<open>o.k = v\<close>.\<close>

definition assign :: "string \<Rightarrow> jsval \<Rightarrow> obj \<Rightarrow> obj" where
  "assign k v ps = AList.update k v ps"

text \<open>
  The object literal \<open>{ ...a, ...b }\<close>: every property of \<open>b\<close> is written over \<open>a\<close>,
  also a property whose value is \<open>undefined\<close>.
\<close>

definition spread :: "obj \<Rightarrow> obj \<Rightarrow> obj" where
  "spread a b = AList.merge a b"

text \<open>
  \<open>ToNumber\<close> on the values that need no parsing. A string, an array, an object or a
  function would be converted through its text; the declared types of the numeric fields
  (\<open>delay\<close>, \<open>elapsed\<close>, \<open>duration\<close>, \<open>repeatDelay\<close> are \<open>number\<close>) exclude them, and
  the model maps them to \<open>NaN\<close>.
\<close>

fun toNumber :: "jsval \<Rightarrow> jsval" where
  "toNumber (Num r) = Num r"
| "toNumber Null = Num 0"
| "toNumber (Bool b) = Num (if b then 1 else 0)"
| "toNumber v = NaN"

fun js_sub :: "jsval \<Rightarrow> jsval \<Rightarrow> jsval" where
  "js_sub a b =
     (case toNumber a of
        Num x \<Rightarrow> (case toNumber b of Num y \<Rightarrow> Num (x - y) | _ \<Rightarrow> NaN)
      | _ \<Rightarrow> NaN)"

fun js_mul :: "jsval \<Rightarrow> jsval \<Rightarrow> jsval" where
  "js_mul a b =
     (case toNumber a of
        Num x \<Rightarrow> (case toNumber b of Num y \<Rightarrow> Num (x * y) | _ \<Rightarrow> NaN)
      | _ \<Rightarrow> NaN)"

section \<open>Calling a function value\<close>

text \<open>
  What a call does is recorded as a list of events: \<open>ValueSet v\<close> is \<open>value.set(v)\<close> on
  the animated motion value, \<open>Called n args\<close> is a call of the external function \<open>n\<close>.
  A call returns the events it performed and, when it threw, the error. Calling a value
  that is not a function throws a TypeError.

  The two closures of \<open>createMotionValueAnimation\<close> (lines 56-63) read
  \<open>valueTransition.onUpdate\<close> and \<open>valueTransition.onComplete\<close> when they run;
  nothing in the file writes to \<open>valueTransition\<close>, so the closure value holds the
  property's value itself: \<open>OnUpdateClosure u\<close> is
  \<open>(v) => { value.set(v); u && u(v) }\<close> and \<open>OnCompleteClosure c u\<close> is
  \<open>() => { c(); u && u() }\<close>.
\<close>

datatype event = ValueSet jsval | Called nat "jsval list"

fun call :: "jsval \<Rightarrow> jsval list \<Rightarrow> event list \<times> error option"
and call_fn :: "fn \<Rightarrow> jsval list \<Rightarrow> event list \<times> error option" where
  "call (Fun f) args = call_fn f args"
| "call Undefined args = ([], Some TypeError)"
| "call Null args = ([], Some TypeError)"
| "call (Bool b) args = ([], Some TypeError)"
| "call (Num r) args = ([], Some TypeError)"
| "call NaN args = ([], Some TypeError)"
| "call (Str s) args = ([], Some TypeError)"
| "call (Arr xs) args = ([], Some TypeError)"
| "call (Obj ps) args = ([], Some TypeError)"
| "call_fn (External n) args = ([Called n args], None)"
| "call_fn (OnUpdateClosure u) args =
     (let v = (case args of [] \<Rightarrow> Undefined | a # _ \<Rightarrow> a)
      in if truthy u
         then (case call u [v] of (es, r) \<Rightarrow> (ValueSet v # es, r))
         else ([ValueSet v], None))"
| "call_fn (OnCompleteClosure c u) args =
     (case call c [] of
        (es, Some e) \<Rightarrow> (es, Some e)
      | (es, None) \<Rightarrow>
          if truthy u
          then (case call u [] of (es', r) \<Rightarrow> (es @ es', r))
          else (es, None))"

section \<open>The strategy selector: animation/index.ts\<close>

text \<open>
  A motion value, as far as the selector reads it: \<open>value.getVelocity()\<close> and
  \<open>value.owner\<close>, whose \<open>getProps()\<close> returns the owner's props.
\<close>

record VisualElement =
  getProps :: obj

record MotionValue =
  getVelocity :: jsval
  owner :: "VisualElement option"

text \<open>
  The functions and flags the selector imports from files that are not part of the
  sources: they are parameters of the model. \<open>getValueTransition\<close> returns \<open>None\<close> for
  a falsy result.
\<close>

record collaborators =
  getValueTransition :: "obj \<Rightarrow> string \<Rightarrow> obj option"
  getKeyframes :: "MotionValue \<Rightarrow> string \<Rightarrow> jsval \<Rightarrow> obj \<Rightarrow> jsval list"
  isTransitionDefined :: "obj \<Rightarrow> bool"
  getDefaultTransition :: "string \<Rightarrow> obj \<Rightarrow> obj"
  supports_waapi :: bool
  instantAnimationState_current :: bool

text \<open>
  Modelled from the spec: \<open>secondsToMilliseconds\<close> of utils/time-conversion, which is
  not among the sources; the spec gives it as the pure function \<open>ms = s * 1000\<close>.
\<close>

definition secondsToMilliseconds :: "jsval \<Rightarrow> jsval" where
  "secondsToMilliseconds seconds = js_mul seconds (Num 1000)"

text \<open>Line 18: the set of values that can be hardware-accelerated is empty.\<close>

definition acceleratedValues :: "string list" where
  "acceleratedValues = []"

text \<open>
  The strategy that was started, with the options it was given: line 76
  (\<open>createInstantAnimation(options)\<close>), line 82 (\<open>inertia(options)\<close>), line 125
  (\<open>createAcceleratedAnimation()\<close>) and line 130 (\<open>animate(options)\<close>).
\<close>

datatype animation =
    Instant obj
  | Inertia obj
  | Accelerated
  | MainThread obj

text \<open>Line 27: \<open>getValueTransition(transition, valueName) || {}\<close>.\<close>

definition valueTransitionOf :: "collaborators \<Rightarrow> obj \<Rightarrow> string \<Rightarrow> obj" where
  "valueTransitionOf c transition valueName =
     (case getValueTransition c transition valueName of None \<Rightarrow> [] | Some vt \<Rightarrow> vt)"

text \<open>Line 34: \<open>valueTransition.delay || transition.delay || 0\<close>.\<close>

definition delayOf :: "obj \<Rightarrow> obj \<Rightarrow> jsval" where
  "delayOf valueTransition transition =
     js_or (js_or (property valueTransition ''delay'') (property transition ''delay'')) (Num 0)"

text \<open>
  Lines 40-41: \<open>let { elapsed = 0 } = transition\<close>, then
  \<open>elapsed = elapsed - secondsToMilliseconds(delay)\<close>.
\<close>

definition elapsedOf :: "obj \<Rightarrow> jsval \<Rightarrow> jsval" where
  "elapsedOf transition delay =
     js_sub (case property transition ''elapsed'' of Undefined \<Rightarrow> Num 0 | e \<Rightarrow> e)
       (secondsToMilliseconds delay)"

text \<open>Lines 45-65: the keyframes and the options literal, \<open>...valueTransition\<close> last.\<close>

definition initialOptions ::
  "collaborators \<Rightarrow> string \<Rightarrow> MotionValue \<Rightarrow> jsval \<Rightarrow> obj \<Rightarrow> jsval \<Rightarrow> obj" where
  "initialOptions c valueName value target transition onComplete =
     (let valueTransition = valueTransitionOf c transition valueName;
          delay = delayOf valueTransition transition;
          elapsed = elapsedOf transition delay;
          keyframes = getKeyframes c value valueName target valueTransition
      in spread
           [(''keyframes'', Arr keyframes),
            (''velocity'', getVelocity value),
            (''elapsed'', elapsed),
            (''onUpdate'', Fun (OnUpdateClosure (property valueTransition ''onUpdate''))),
            (''onComplete'',
               Fun (OnCompleteClosure onComplete (property valueTransition ''onComplete'')))]
           valueTransition)"

text \<open>Lines 91-96: the default transition, spread over the options.\<close>

definition withDefaultTransition ::
  "collaborators \<Rightarrow> string \<Rightarrow> obj \<Rightarrow> obj \<Rightarrow> obj" where
  "withDefaultTransition c valueName valueTransition options =
     (if \<not> isTransitionDefined c valueTransition
      then spread options (getDefaultTransition c valueName options)
      else options)"

text \<open>Lines 103-109: \<open>duration\<close> and \<open>repeatDelay\<close>, when truthy, go to milliseconds.\<close>

definition durationToMilliseconds :: "obj \<Rightarrow> obj" where
  "durationToMilliseconds options =
     (if truthy (property options ''duration'')
      then assign ''duration'' (secondsToMilliseconds (property options ''duration'')) options
      else options)"

definition repeatDelayToMilliseconds :: "obj \<Rightarrow> obj" where
  "repeatDelayToMilliseconds options =
     (if truthy (property options ''repeatDelay'')
      then assign ''repeatDelay'' (secondsToMilliseconds (property options ''repeatDelay'')) options
      else options)"

text \<open>
  Lines 111-116, with the accelerable set as an argument; the source uses
  \<open>acceleratedValues\<close>.
\<close>

definition canAccelerateAnimation ::
  "string list \<Rightarrow> collaborators \<Rightarrow> string \<Rightarrow> MotionValue \<Rightarrow> obj \<Rightarrow> bool" where
  "canAccelerateAnimation accelerated c valueName value options =
     (valueName \<in> set accelerated \<and>
      supports_waapi c \<and>
      (case owner value of
         None \<Rightarrow> False
       | Some element \<Rightarrow> \<not> truthy (property (getProps element) ''onUpdate'')) \<and>
      \<not> truthy (property options ''repeat''))"

text \<open>
  Lines 103-133: what the timeline branch starts, from the options after the default
  transition.
\<close>

definition startTimeline ::
  "string list \<Rightarrow> collaborators \<Rightarrow> string \<Rightarrow> MotionValue \<Rightarrow> obj \<Rightarrow> animation" where
  "startTimeline accelerated c valueName value options0 =
     (let options = repeatDelayToMilliseconds (durationToMilliseconds options0)
      in if canAccelerateAnimation accelerated c valueName value options
         then Accelerated
         else MainThread options)"

text \<open>
  \<open>createMotionValueAnimation(valueName, value, target, transition)(onComplete)\<close>,
  lines 20-135. An omitted \<open>transition\<close> is the empty object.
\<close>

definition createMotionValueAnimation ::
  "collaborators \<Rightarrow> string \<Rightarrow> MotionValue \<Rightarrow> jsval \<Rightarrow> obj \<Rightarrow> jsval \<Rightarrow> animation" where
  "createMotionValueAnimation c valueName value target transition onComplete =
     (let valueTransition = valueTransitionOf c transition valueName;
          canAnimate = True;
          options = initialOptions c valueName value target transition onComplete
      in if \<not> canAnimate \<or> instantAnimationState_current c \<or>
            property valueTransition ''type'' = Bool False
         then Instant options
         else if property valueTransition ''type'' = Str ''inertia''
         then Inertia options
         else startTimeline acceleratedValues c valueName value
                (withDefaultTransition c valueName valueTransition options))"

text \<open>The options a started strategy was given; the accelerated strategy is given none.\<close>

fun deliveredOptions :: "animation \<Rightarrow> obj" where
  "deliveredOptions (Instant options) = options"
| "deliveredOptions (Inertia options) = options"
| "deliveredOptions Accelerated = []"
| "deliveredOptions (MainThread options) = options"

subsection \<open>Collaborators as the spec describes them\<close>

text \<open>
  Modelled from the spec: \<open>getValueTransition\<close> of animation/utils/transitions, which is
  not among the sources. The spec: "Resolve the effective per-value transition by merging
  value-specific overrides onto the root transition (value-specific wins
  field-by-field)". The override of a value name is the object stored under that name in
  the root transition.
\<close>

definition mergedValueTransition :: "obj \<Rightarrow> string \<Rightarrow> obj option" where
  "mergedValueTransition transition valueName =
     (case property transition valueName of
        Obj override \<Rightarrow> Some (spread transition override)
      | _ \<Rightarrow> Some transition)"

text \<open>
  Modelled from the spec: \<open>createInstantAnimation\<close> of
  animation/create-instant-animation, which is not among the sources. The spec: the
  instant strategy "must apply the final keyframe value synchronously-equivalent (no
  intermediate frames) and invoke completion". The options are all it is given, so it
  applies a value through \<open>options.onUpdate\<close> and completes through
  \<open>options.onComplete\<close>. The result is what running it does.
\<close>

definition createInstantAnimation :: "obj \<Rightarrow> event list \<times> error option" where
  "createInstantAnimation options =
     (let final = (case property options ''keyframes'' of
                     Arr [] \<Rightarrow> Undefined
                   | Arr (k # ks) \<Rightarrow> last (k # ks)
                   | _ \<Rightarrow> Undefined)
      in case call (property options ''onUpdate'') [final] of
           (es, Some e) \<Rightarrow> (es, Some e)
         | (es, None) \<Rightarrow>
             (case call (property options ''onComplete'') [] of (es', r) \<Rightarrow> (es @ es', r)))"

text \<open>
  A concrete set of collaborators, for running the selector on explicit inputs.
  \<open>getValueTransition\<close> is the merge above; the keyframes of a single target are that
  target; a transition is defined when it names a duration, an easing or a type (the
  spec: "leaves duration/easing/type fully unspecified"); there are no default
  heuristics, no accelerated backend, and the instant-animations flag is off.
\<close>

definition specCollaborators :: collaborators where
  "specCollaborators =
     \<lparr> getValueTransition = mergedValueTransition,
       getKeyframes = (\<lambda>value valueName target valueTransition. [target]),
       isTransitionDefined =
         (\<lambda>valueTransition.
            ''duration'' \<in> fst ` set valueTransition \<or>
            ''ease'' \<in> fst ` set valueTransition \<or>
            ''type'' \<in> fst ` set valueTransition),
       getDefaultTransition = (\<lambda>valueName options. []),
       supports_waapi = False,
       instantAnimationState_current = False \<rparr>"

text \<open>
  The same collaborators with one default heuristic for every value name, a linear tween
  of 0.3 seconds: it names exactly the three fields whose absence makes a transition
  undefined.
\<close>

definition tweenCollaborators :: collaborators where
  "tweenCollaborators =
     specCollaborators
       \<lparr> getDefaultTransition :=
           (\<lambda>valueName options.
              [(''type'', Str ''tween''), (''duration'', Num (3/10)),
               (''ease'', Str ''linear'')]) \<rparr>"

text \<open>The same collaborators in an environment that supports the accelerated backend.\<close>

definition waapiCollaborators :: collaborators where
  "waapiCollaborators = specCollaborators \<lparr> supports_waapi := True \<rparr>"

text \<open>A motion value at rest with no owner, and one owned by an element without props.\<close>

definition restingValue :: MotionValue where
  "restingValue = \<lparr> getVelocity = Num 0, owner = None \<rparr>"

definition ownedValue :: MotionValue where
  "ownedValue = \<lparr> getVelocity = Num 0, owner = Some \<lparr> getProps = [] \<rparr> \<rparr>"

section \<open>The range interpolator: utils/transform.ts\<close>

text \<open>\<open>typeof v\<close>.\<close>

fun typeof :: "jsval \<Rightarrow> string" where
  "typeof Undefined = ''undefined''"
| "typeof Null = ''object''"
| "typeof (Bool b) = ''boolean''"
| "typeof (Num r) = ''number''"
| "typeof NaN = ''number''"
| "typeof (Str s) = ''string''"
| "typeof (Arr xs) = ''object''"
| "typeof (Obj ps) = ''object''"
| "typeof (Fun f) = ''function''"

text \<open>
  \<open>v.k\<close> on any value: reading a property of \<open>undefined\<close> or \<open>null\<close> throws a
  TypeError. The properties that numbers, strings, arrays and functions inherit from
  their prototypes are not modelled (\<open>mix\<close>, the one property read this way, is not
  among them).
\<close>

fun getMember :: "jsval \<Rightarrow> string \<Rightarrow> error + jsval" where
  "getMember Undefined k = Inl TypeError"
| "getMember Null k = Inl TypeError"
| "getMember (Obj ps) k = Inr (property ps k)"
| "getMember v k = Inr Undefined"

text \<open>\<open>Array.isArray(v)\<close>.\<close>

fun isArray :: "jsval \<Rightarrow> bool" where
  "isArray (Arr xs) = True"
| "isArray v = False"

text \<open>\<open>xs[i]\<close> on an array: \<open>undefined\<close> outside the array, also at index -1.\<close>

definition elementAt :: "jsval list \<Rightarrow> int \<Rightarrow> jsval" where
  "elementAt xs i = (if 0 \<le> i \<and> i < int (length xs) then xs ! nat i else Undefined)"

text \<open>\<open>v[0]\<close> on any value, as line 115 reads \<open>outputRange[0]\<close>.\<close>

fun first :: "jsval \<Rightarrow> error + jsval" where
  "first Undefined = Inl TypeError"
| "first Null = Inl TypeError"
| "first (Arr xs) = Inr (elementAt xs 0)"
| "first (Obj ps) = Inr (property ps ''0'')"
| "first (Str s) = Inr (case s of [] \<Rightarrow> Undefined | ch # _ \<Rightarrow> Str [ch])"
| "first v = Inr Undefined"

text \<open>
  Lines 31-33: \<open>typeof v === "object" && v.mix\<close>. The result is the value of the
  \<open>&&\<close> expression; \<open>getMixer\<close> reads its truthiness.
\<close>

definition isCustomValueType :: "jsval \<Rightarrow> error + jsval" where
  "isCustomValueType v =
     (if typeof v = ''object'' then getMember v ''mix'' else Inr (Bool False))"

text \<open>Line 35: \<open>isCustomValueType(v) ? v.mix : undefined\<close>.\<close>

definition getMixer :: "jsval \<Rightarrow> error + jsval" where
  "getMixer v =
     (case isCustomValueType v of
        Inl e \<Rightarrow> Inl e
      | Inr t \<Rightarrow> if truthy t then getMember v ''mix'' else Inr Undefined)"

text \<open>
  What \<open>transform\<close> returns: a value in the immediate call shape, the interpolator in
  the curried one. \<open>interpolate\<close> comes from a library outside the repository, so it is
  an argument of the model: given the two ranges and the options it throws or returns the
  interpolator, a function that throws or returns a value.
\<close>

datatype transformed = Value jsval | Interpolator "jsval \<Rightarrow> error + jsval"

type_synonym interpolate_fn =
  "jsval \<Rightarrow> jsval \<Rightarrow> obj \<Rightarrow> error + (jsval \<Rightarrow> error + jsval)"

text \<open>
  Lines 114-117: the call \<open>interpolate(inputRange, outputRange, { mixer:
  getMixer(outputRange[0]), ...options })\<close>. Spreading \<open>options\<close> adds the properties
  of an object and nothing for \<open>undefined\<close> or \<open>null\<close>; the declared type excludes
  other values.
\<close>

definition interpolatorOf ::
  "interpolate_fn \<Rightarrow> jsval \<Rightarrow> jsval \<Rightarrow> jsval \<Rightarrow> error + (jsval \<Rightarrow> error + jsval)" where
  "interpolatorOf interpolate inputRange outputRange options =
     (case first outputRange of
        Inl e \<Rightarrow> Inl e
      | Inr v \<Rightarrow>
          (case getMixer v of
             Inl e \<Rightarrow> Inl e
           | Inr mixer \<Rightarrow>
               interpolate inputRange outputRange
                 (spread [(''mixer'', mixer)]
                    (case options of Obj ps \<Rightarrow> ps | _ \<Rightarrow> []))))"

text \<open>Lines 102-120, on the argument list \<open>args\<close>.\<close>

definition transform :: "interpolate_fn \<Rightarrow> jsval list \<Rightarrow> error + transformed" where
  "transform interpolate args =
     (let useImmediate = \<not> isArray (elementAt args 0);
          argOffset = (if useImmediate then 0 else - 1);
          inputValue = elementAt args (0 + argOffset);
          inputRange = elementAt args (1 + argOffset);
          outputRange = elementAt args (2 + argOffset);
          options = elementAt args (3 + argOffset)
      in case interpolatorOf interpolate inputRange outputRange options of
           Inl e \<Rightarrow> Inl e
         | Inr interpolator \<Rightarrow>
             if useImmediate
             then (case interpolator inputValue of
                     Inl e \<Rightarrow> Inl e
                   | Inr result \<Rightarrow> Inr (Value result))
             else Inr (Interpolator interpolator))"

text \<open>
  Using a result: \<open>applyTransformed t v\<close> calls what the curried shape returned on \<open>v\<close>,
  \<open>valueOf t\<close> is the value the immediate shape returned.
\<close>

definition applyTransformed :: "error + transformed \<Rightarrow> jsval \<Rightarrow> error + jsval" where
  "applyTransformed t v =
     (case t of
        Inl e \<Rightarrow> Inl e
      | Inr (Value x) \<Rightarrow> Inl TypeError
      | Inr (Interpolator f) \<Rightarrow> f v)"

definition valueOf :: "error + transformed \<Rightarrow> error + jsval" where
  "valueOf t =
     (case t of
        Inl e \<Rightarrow> Inl e
      | Inr (Value x) \<Rightarrow> Inr x
      | Inr (Interpolator f) \<Rightarrow> Inl TypeError)"

subsection \<open>The interpolation algorithm as the spec describes it\<close>

text \<open>
  What the functions passed in the options compute is not known to the model; it takes
  their behaviour as an argument: applying an easing function to a position, applying a
  custom mixer to two values and a position, and the default blend of two values that are
  not numbers.
\<close>

record externals =
  applyEase :: "jsval \<Rightarrow> real \<Rightarrow> real"
  applyMixer :: "jsval \<Rightarrow> jsval \<Rightarrow> jsval \<Rightarrow> real \<Rightarrow> jsval"
  blend :: "jsval \<Rightarrow> jsval \<Rightarrow> real \<Rightarrow> jsval"

fun numbers :: "jsval list \<Rightarrow> real list option" where
  "numbers [] = Some []"
| "numbers (Num r # vs) = map_option ((#) r) (numbers vs)"
| "numbers (v # vs) = None"

text \<open>Modelled from the spec: "\<open>options.clamp\<close> defaults to \<open>true\<close>".\<close>

definition clampOption :: "obj \<Rightarrow> bool" where
  "clampOption options =
     (case property options ''clamp'' of Undefined \<Rightarrow> True | c \<Rightarrow> truthy c)"

text \<open>
  Modelled from the spec: the bracketing segment is the first one, by ascending index,
  whose two boundaries enclose the input; when none does, it is the segment at the nearer
  end of the input range.
\<close>

fun findSegment :: "real list \<Rightarrow> real \<Rightarrow> nat option" where
  "findSegment (a # b # rest) v =
     (if min a b \<le> v \<and> v \<le> max a b then Some 0
      else map_option Suc (findSegment (b # rest) v))"
| "findSegment xs v = None"

definition segmentOf :: "real list \<Rightarrow> real \<Rightarrow> nat" where
  "segmentOf input v =
     (case findSegment input v of
        Some i \<Rightarrow> i
      | None \<Rightarrow> if \<bar>v - hd input\<bar> \<le> \<bar>v - last input\<bar> then 0 else length input - 2)"

text \<open>
  Modelled from the spec: the normalized position of \<open>v\<close> in the segment from \<open>a\<close> to
  \<open>b\<close>.
\<close>

definition progress :: "real \<Rightarrow> real \<Rightarrow> real \<Rightarrow> real" where
  "progress a b v = (if b = a then 0 else (v - a) / (b - a))"

text \<open>
  Modelled from the spec: one easing function for every segment, or an array with one per
  segment; the identity when there is none.
\<close>

definition easeOf :: "externals \<Rightarrow> obj \<Rightarrow> nat \<Rightarrow> real \<Rightarrow> real" where
  "easeOf ext options i t =
     (case property options ''ease'' of
        Undefined \<Rightarrow> t
      | Arr es \<Rightarrow> applyEase ext (elementAt es (int i)) t
      | e \<Rightarrow> applyEase ext e t)"

text \<open>
  Modelled from the spec: the mixer of the options when there is one, else the linear
  blend of numbers.
\<close>

definition mix :: "externals \<Rightarrow> obj \<Rightarrow> jsval \<Rightarrow> jsval \<Rightarrow> real \<Rightarrow> jsval" where
  "mix ext options from to t =
     (if truthy (property options ''mixer'')
      then applyMixer ext (property options ''mixer'') from to t
      else (case (from, to) of
              (Num x, Num y) \<Rightarrow> Num (x + (y - x) * t)
            | _ \<Rightarrow> blend ext from to t))"

text \<open>
  Modelled from the spec: one evaluation of the interpolator, steps 2 and 3 of section
  4.2.
\<close>

definition interpolateAt ::
  "externals \<Rightarrow> real list \<Rightarrow> jsval list \<Rightarrow> obj \<Rightarrow> real \<Rightarrow> jsval" where
  "interpolateAt ext input output options v =
     (let v' = (if clampOption options
                then max (Min (set input)) (min (Max (set input)) v)
                else v);
          i = segmentOf input v';
          t = easeOf ext options i (progress (input ! i) (input ! Suc i) v')
      in mix ext options (output ! i) (output ! Suc i) t)"

text \<open>
  Modelled from the spec: \<open>interpolate\<close> of the library the file imports, which is not
  among the sources. Section 4.2 of the spec: the two ranges are sequences of equal length,
  at least 2 (a violation fails fast); with \<open>clamp\<close> an input outside the input range
  saturates to the nearest boundary, without it the nearest segment is extrapolated
  linearly; the position within the bracketing segment is eased and then mixed.
\<close>

definition interpolate :: "externals \<Rightarrow> interpolate_fn" where
  "interpolate ext inputRange outputRange options =
     (case (inputRange, outputRange) of
        (Arr is, Arr output) \<Rightarrow>
          (case numbers is of
             None \<Rightarrow> Inl PreconditionViolation
           | Some input \<Rightarrow>
               if length input < 2 \<or> length input \<noteq> length output
               then Inl PreconditionViolation
               else Inr (\<lambda>v. case v of
                                Num x \<Rightarrow> Inr (interpolateAt ext input output options x)
                              | _ \<Rightarrow> Inr NaN))
      | _ \<Rightarrow> Inl PreconditionViolation)"

text \<open>
  Externals for running the interpolator on explicit inputs: every easing function is
  linear, and a custom mixer or a blend of values that are not numbers switches from the
  first value to the second at the end of the segment.
\<close>

definition linearExternals :: externals where
  "linearExternals =
     \<lparr> applyEase = (\<lambda>ease t. t),
       applyMixer = (\<lambda>mixer from to t. if t < 1 then from else to),
       blend = (\<lambda>from to t. if t < 1 then from else to) \<rparr>"

section \<open>Reading objects\<close>

lemma property_Nil: "property [] k = Undefined"
  by (simp add: property_def)

lemma property_Cons: "property ((k', v) # ps) k = (if k = k' then v else property ps k)"
  by (simp add: property_def)

lemma property_spread:
  "property (spread a b) k = (case map_of b k of None \<Rightarrow> property a k | Some v \<Rightarrow> v)"
  by (simp add: property_def spread_def merge_conv' map_add_def split: option.splits)

lemma property_assign:
  "property (assign k v ps) k' = (if k' = k then v else property ps k')"
  by (simp add: property_def assign_def update_conv')

lemmas property_simps = property_Nil property_Cons property_spread property_assign

lemmas selector_defs = createMotionValueAnimation_def initialOptions_def valueTransitionOf_def
  delayOf_def elapsedOf_def withDefaultTransition_def startTimeline_def
  durationToMilliseconds_def repeatDelayToMilliseconds_def canAccelerateAnimation_def
  acceleratedValues_def secondsToMilliseconds_def js_or_def Let_def

lemmas collaborator_defs = specCollaborators_def tweenCollaborators_def
  waapiCollaborators_def mergedValueTransition_def restingValue_def ownedValue_def

lemmas interpolate_defs = transform_def interpolatorOf_def elementAt_def Let_def getMixer_def
  isCustomValueType_def interpolate_def interpolateAt_def clampOption_def segmentOf_def
  progress_def easeOf_def mix_def linearExternals_def

section \<open>The options literal\<close>

text \<open>
  Every property of the effective transition replaces the property of the same name
  written before the spread. For the two callbacks this means: the options hold the
  transition's own \<open>onUpdate\<close> when it has one, and the closure of lines 56-59 only when
  it has none, in which case the closure has nothing to forward to.
\<close>

lemma initialOptions_onUpdate:
  "property (initialOptions c valueName value target transition onComplete) ''onUpdate'' =
     (case map_of (valueTransitionOf c transition valueName) ''onUpdate'' of
        None \<Rightarrow> Fun (OnUpdateClosure Undefined)
      | Some u \<Rightarrow> u)"
  by (simp add: initialOptions_def Let_def property_simps)
     (simp add: property_def split: option.splits)

lemma initialOptions_onComplete:
  "property (initialOptions c valueName value target transition onComplete) ''onComplete'' =
     (case map_of (valueTransitionOf c transition valueName) ''onComplete'' of
        None \<Rightarrow> Fun (OnCompleteClosure onComplete Undefined)
      | Some u \<Rightarrow> u)"
  by (simp add: initialOptions_def Let_def property_simps)
     (simp add: property_def split: option.splits)

lemma initialOptions_elapsed:
  "property (initialOptions c valueName value target transition onComplete) ''elapsed'' =
     (case map_of (valueTransitionOf c transition valueName) ''elapsed'' of
        None \<Rightarrow>
          elapsedOf transition (delayOf (valueTransitionOf c transition valueName) transition)
      | Some e \<Rightarrow> e)"
  by (simp add: initialOptions_def Let_def property_simps split: option.splits)

text \<open>
  C1. The claim: the options handed to the strategy hold an \<open>onUpdate\<close> that writes the
  value with \<open>value.set\<close> and then forwards to the user's \<open>onUpdate\<close>, and an
  \<open>onComplete\<close> that calls the caller's completion callback and then the user's
  \<open>onComplete\<close>, also when the effective transition supplies these fields. On the code,
  for a transition that supplies both (the user's functions 1 and 2, the caller's
  completion callback 0): an update tick with the value 50 calls the user's function and
  never sets the value, and completion calls the user's function and never the caller's.
\<close>

theorem user_callbacks_replace_default_callbacks:
  "call (property (initialOptions specCollaborators ''x'' restingValue (Num 100)
            [(''onUpdate'', Fun (External 1)), (''onComplete'', Fun (External 2))]
            (Fun (External 0))) ''onUpdate'') [Num 50]
     = ([Called 1 [Num 50]], None) \<and>
   call (property (initialOptions specCollaborators ''x'' restingValue (Num 100)
            [(''onUpdate'', Fun (External 1)), (''onComplete'', Fun (External 2))]
            (Fun (External 0))) ''onComplete'') []
     = ([Called 2 []], None)"
  by (simp add: selector_defs collaborator_defs property_simps)

section \<open>Delay and elapsed time\<close>

text \<open>
  With \<open>getValueTransition\<close> as the spec describes it, a field of the value-specific
  override is the field of the effective transition, whatever the root transition says.
\<close>

lemma mergedValueTransition_override:
  "property transition valueName = Obj override \<Longrightarrow> map_of override F = Some v \<Longrightarrow>
   \<exists>vt. mergedValueTransition transition valueName = Some vt \<and> property vt F = v"
  by (simp add: mergedValueTransition_def property_simps)

text \<open>Line 34 takes the first truthy delay, so a delay of 0 counts as absent.\<close>

lemma delayOf_cases:
  "delayOf valueTransition transition =
     (if truthy (property valueTransition ''delay'') then property valueTransition ''delay''
      else if truthy (property transition ''delay'') then property transition ''delay''
      else Num 0)"
  by (simp add: delayOf_def js_or_def)

text \<open>
  C2. The claim: the effective delay is the value-specific delay when it is present,
  including when it is 0, and the root transition's delay only when the override omits
  it. On the code, for the root delay 0.5 and the override \<open>x: { delay: 0 }\<close>: the
  effective transition of \<open>x\<close> has delay 0, and line 34 computes the delay 0.5.
\<close>

theorem zero_value_delay_inherits_root_delay:
  "property (valueTransitionOf specCollaborators
       [(''delay'', Num (1/2)), (''x'', Obj [(''delay'', Num 0)])] ''x'') ''delay'' = Num 0 \<and>
   delayOf (valueTransitionOf specCollaborators
       [(''delay'', Num (1/2)), (''x'', Obj [(''delay'', Num 0)])] ''x'')
     [(''delay'', Num (1/2)), (''x'', Obj [(''delay'', Num 0)])] = Num (1/2)"
  by (simp add: selector_defs collaborator_defs property_simps)

text \<open>
  C6. The claim: the elapsed value placed in the options is the transition's elapsed
  field minus the delay in milliseconds, 300 for elapsed 500 and delay 0.2. On the code,
  for that transition: lines 40-41 compute 300, and the options, as built and as
  delivered to the strategy, hold 500, because the spread of the effective transition
  writes its own \<open>elapsed\<close> over the computed one.
\<close>

theorem transition_elapsed_overwrites_computed_elapsed:
  "elapsedOf [(''elapsed'', Num 500), (''delay'', Num (2/10))]
     (delayOf (valueTransitionOf specCollaborators
                 [(''elapsed'', Num 500), (''delay'', Num (2/10))] ''x'')
        [(''elapsed'', Num 500), (''delay'', Num (2/10))]) = Num 300 \<and>
   property (initialOptions specCollaborators ''x'' restingValue (Num 100)
               [(''elapsed'', Num 500), (''delay'', Num (2/10))] (Fun (External 0)))
     ''elapsed'' = Num 500 \<and>
   property (deliveredOptions (createMotionValueAnimation specCollaborators ''x'' restingValue
               (Num 100) [(''elapsed'', Num 500), (''delay'', Num (2/10))] (Fun (External 0))))
     ''elapsed'' = Num 500"
  by (simp add: selector_defs collaborator_defs property_simps)

theorem transition_elapsed_overwrites_computed_elapsed_witness:
  "property (deliveredOptions (createMotionValueAnimation specCollaborators ''x'' restingValue
               (Num 100) [(''elapsed'', Num 500), (''delay'', Num (2/10))] (Fun (External 0))))
     ''elapsed'' \<noteq> Num 300"
  using transition_elapsed_overwrites_computed_elapsed
  by simp

section \<open>The instant strategy\<close>

text \<open>
  The instant strategy is selected whenever the instant-animations flag is set or the
  effective transition has \<open>type: false\<close>; \<open>canAnimate\<close> is the constant \<open>true\<close>.
\<close>

lemma instant_selected:
  "instantAnimationState_current c \<or>
   property (valueTransitionOf c transition valueName) ''type'' = Bool False \<Longrightarrow>
   createMotionValueAnimation c valueName value target transition onComplete =
     Instant (initialOptions c valueName value target transition onComplete)"
  by (auto simp add: createMotionValueAnimation_def Let_def)

text \<open>
  When the effective transition names no callbacks and no keyframes of its own, the
  instant strategy sets the value to the final keyframe and calls the caller's
  completion callback, once each.
\<close>

lemma instant_default_callbacks:
  assumes "map_of (valueTransitionOf c transition valueName) ''onUpdate'' = None"
    and "map_of (valueTransitionOf c transition valueName) ''onComplete'' = None"
    and "map_of (valueTransitionOf c transition valueName) ''keyframes'' = None"
    and "getKeyframes c value valueName target (valueTransitionOf c transition valueName)
           = k # ks"
  shows "createInstantAnimation
           (initialOptions c valueName value target transition (Fun (External n)))
         = ([ValueSet (last (k # ks)), Called n []], None)"
  using assms
  by (simp add: createInstantAnimation_def initialOptions_onUpdate initialOptions_onComplete
        Let_def)
     (simp add: initialOptions_def Let_def property_simps)

text \<open>
  C4. The claim: with \<open>type === false\<close> the instant strategy is selected, applies the
  final keyframe and invokes the completion callback exactly once. On the code, for the
  transition \<open>{ type: false, onComplete: f2 }\<close>, the target 100 and the caller's
  completion callback 0: the instant strategy is selected and sets the value to 100, then
  calls the user's function 2; the caller's completion callback is never called.
\<close>

theorem instant_with_user_onComplete_skips_caller:
  "(case createMotionValueAnimation specCollaborators ''x'' restingValue (Num 100)
           [(''type'', Bool False), (''onComplete'', Fun (External 2))] (Fun (External 0)) of
      Instant options \<Rightarrow>
        createInstantAnimation options = ([ValueSet (Num 100), Called 2 []], None)
    | _ \<Rightarrow> False)"
  by (simp add: selector_defs collaborator_defs property_simps createInstantAnimation_def)

theorem instant_with_user_onComplete_skips_caller_witness:
  "createMotionValueAnimation specCollaborators ''x'' restingValue (Num 100)
     [(''type'', Bool False), (''onComplete'', Fun (External 2))] (Fun (External 0))
   \<noteq> Accelerated"
  using instant_with_user_onComplete_skips_caller
  by (simp split: animation.splits)

section \<open>The timeline branch\<close>

text \<open>
  An animation that reaches the main-thread strategy was neither instant nor inertia, and
  its options are the initial options after the default transition and the two
  conversions.
\<close>

lemma timeline_selected:
  assumes "createMotionValueAnimation c valueName value target transition onComplete
             = MainThread delivered"
  shows "delivered =
           repeatDelayToMilliseconds (durationToMilliseconds
             (withDefaultTransition c valueName (valueTransitionOf c transition valueName)
                (initialOptions c valueName value target transition onComplete)))"
  using assms
  by (simp add: createMotionValueAnimation_def startTimeline_def Let_def split: if_splits)


lemma durationToMilliseconds_duration:
  "property options ''duration'' = Num d \<Longrightarrow>
   property (durationToMilliseconds options) ''duration'' = Num (d * 1000)"
  by (simp add: durationToMilliseconds_def secondsToMilliseconds_def property_assign)

lemma durationToMilliseconds_other:
  "k \<noteq> ''duration'' \<Longrightarrow> property (durationToMilliseconds options) k = property options k"
  by (simp add: durationToMilliseconds_def property_assign)

lemma repeatDelayToMilliseconds_repeatDelay:
  "property options ''repeatDelay'' = Num d \<Longrightarrow>
   property (repeatDelayToMilliseconds options) ''repeatDelay'' = Num (d * 1000)"
  by (simp add: repeatDelayToMilliseconds_def secondsToMilliseconds_def property_assign)

lemma repeatDelayToMilliseconds_other:
  "k \<noteq> ''repeatDelay'' \<Longrightarrow>
   property (repeatDelayToMilliseconds options) k = property options k"
  by (simp add: repeatDelayToMilliseconds_def property_assign)

lemma property_repeat_converted:
  "property (repeatDelayToMilliseconds (durationToMilliseconds options)) ''repeat''
     = property options ''repeat''"
  by (simp add: repeatDelayToMilliseconds_other durationToMilliseconds_other)






text \<open>
  C5, as the spec states it: no time field of the transition reaches a timeline strategy
  still in seconds. It fails for the delay: with \<open>delay: 0.2\<close> and \<open>duration: 1\<close> the
  main-thread strategy is given the duration 1000 and the delay 0.2.
\<close>

theorem delay_reaches_timeline_in_seconds:
  "(case createMotionValueAnimation specCollaborators ''x'' restingValue (Num 100)
       [(''delay'', Num (2/10)), (''duration'', Num 1)] (Fun (External 0)) of
      MainThread options \<Rightarrow>
        property options ''duration'' = Num 1000 \<and> property options ''delay'' = Num (2/10)
    | _ \<Rightarrow> False)"
  by (simp add: selector_defs collaborator_defs property_simps)

text \<open>
  C5, amended: for an animation that reaches the main-thread strategy, a numeric
  \<open>duration\<close> and a numeric \<open>repeatDelay\<close> of the options (after the default
  transition) are delivered multiplied by 1000, and every other field, the \<open>delay\<close>
  among them, is delivered as the options hold it.
\<close>

theorem timeline_durations_in_milliseconds:
  assumes "createMotionValueAnimation c valueName value target transition onComplete
             = MainThread delivered"
    and "options = withDefaultTransition c valueName
                     (valueTransitionOf c transition valueName)
                     (initialOptions c valueName value target transition onComplete)"
  shows "(\<forall>d. property options ''duration'' = Num d \<longrightarrow>
              property delivered ''duration'' = Num (d * 1000)) \<and>
         (\<forall>d. property options ''repeatDelay'' = Num d \<longrightarrow>
              property delivered ''repeatDelay'' = Num (d * 1000)) \<and>
         (\<forall>k. k \<noteq> ''duration'' \<longrightarrow> k \<noteq> ''repeatDelay'' \<longrightarrow>
              property delivered k = property options k)"
proof -
  have delivered: "delivered = repeatDelayToMilliseconds (durationToMilliseconds options)"
    using timeline_selected [OF assms(1)] assms(2) by simp
  show ?thesis
    by (simp add: delivered repeatDelayToMilliseconds_other durationToMilliseconds_other
          durationToMilliseconds_duration repeatDelayToMilliseconds_repeatDelay)
qed

theorem timeline_durations_in_milliseconds_witness:
  "property (deliveredOptions (createMotionValueAnimation specCollaborators ''x''
       restingValue (Num 100)
       [(''duration'', Num 2), (''repeatDelay'', Num (1/2)), (''delay'', Num (2/10))]
       (Fun (External 0)))) ''duration'' = Num 2000 \<and>
   property (deliveredOptions (createMotionValueAnimation specCollaborators ''x''
       restingValue (Num 100)
       [(''duration'', Num 2), (''repeatDelay'', Num (1/2)), (''delay'', Num (2/10))]
       (Fun (External 0)))) ''repeatDelay'' = Num 500 \<and>
   property (deliveredOptions (createMotionValueAnimation specCollaborators ''x''
       restingValue (Num 100)
       [(''duration'', Num 2), (''repeatDelay'', Num (1/2)), (''delay'', Num (2/10))]
       (Fun (External 0)))) ''delay'' = Num (2/10)"
proof -
  let ?t = "[(''duration'', Num 2), (''repeatDelay'', Num (1/2)), (''delay'', Num (2/10))]"
  let ?run = "createMotionValueAnimation specCollaborators ''x'' restingValue (Num 100)
                ?t (Fun (External 0))"
  let ?options = "withDefaultTransition specCollaborators ''x''
                    (valueTransitionOf specCollaborators ?t ''x'')
                    (initialOptions specCollaborators ''x'' restingValue (Num 100) ?t
                       (Fun (External 0)))"
  have started: "?run = MainThread (deliveredOptions ?run)"
    by (simp add: selector_defs collaborator_defs property_simps)
  have duration: "property ?options ''duration'' = Num 2"
    and repeatDelay: "property ?options ''repeatDelay'' = Num (1/2)"
    and delay: "property ?options ''delay'' = Num (2/10)"
    by (simp_all add: selector_defs collaborator_defs property_simps)
  note converted = timeline_durations_in_milliseconds [OF started refl]
  have "property (deliveredOptions ?run) ''duration'' = Num (2 * 1000)"
    using converted duration by blast
  moreover have "property (deliveredOptions ?run) ''repeatDelay'' = Num (1/2 * 1000)"
    using converted repeatDelay by blast
  moreover have "property (deliveredOptions ?run) ''delay'' = property ?options ''delay''"
    using converted by simp
  ultimately show ?thesis
    using delay by simp
qed

text \<open>
  C7. For any accelerable set, the timeline branch starts the accelerated strategy exactly
  when the value name is in the set, the environment supports the accelerated backend,
  the value has an owner whose props hold no truthy \<open>onUpdate\<close>, and the options hold no
  truthy \<open>repeat\<close>. With the empty set of line 18, no animation start selects the
  accelerated strategy.
\<close>

theorem acceleration_only_when_eligible:
  "(startTimeline accelerated c valueName value options = Accelerated \<longleftrightarrow>
      valueName \<in> set accelerated \<and>
      supports_waapi c \<and>
      (\<exists>element. owner value = Some element \<and>
                  \<not> truthy (property (getProps element) ''onUpdate'')) \<and>
      \<not> truthy (property options ''repeat'')) \<and>
   createMotionValueAnimation c valueName value target transition onComplete \<noteq> Accelerated"
  by (auto simp add: startTimeline_def canAccelerateAnimation_def Let_def
        property_repeat_converted createMotionValueAnimation_def acceleratedValues_def
      split: option.splits)

theorem acceleration_only_when_eligible_witness:
  "startTimeline [''opacity''] waapiCollaborators ''opacity'' ownedValue [] = Accelerated \<and>
   startTimeline [''opacity''] waapiCollaborators ''opacity'' ownedValue [(''repeat'', Num 2)]
     \<noteq> Accelerated \<and>
   startTimeline [''opacity''] specCollaborators ''opacity'' ownedValue [] \<noteq> Accelerated \<and>
   startTimeline [''opacity''] waapiCollaborators ''opacity'' restingValue [] \<noteq> Accelerated \<and>
   startTimeline [''opacity''] waapiCollaborators ''opacity''
     \<lparr> getVelocity = Num 0,
       owner = Some \<lparr> getProps = [(''onUpdate'', Fun (External 3))] \<rparr> \<rparr> []
     \<noteq> Accelerated \<and>
   startTimeline [''opacity''] waapiCollaborators ''x'' ownedValue [] \<noteq> Accelerated"
  using
    acceleration_only_when_eligible
      [of "[''opacity'']" waapiCollaborators "''opacity''" ownedValue "[]"]
    acceleration_only_when_eligible
      [of "[''opacity'']" waapiCollaborators "''opacity''" ownedValue "[(''repeat'', Num 2)]"]
    acceleration_only_when_eligible
      [of "[''opacity'']" specCollaborators "''opacity''" ownedValue "[]"]
    acceleration_only_when_eligible
      [of "[''opacity'']" waapiCollaborators "''opacity''" restingValue "[]"]
    acceleration_only_when_eligible
      [of "[''opacity'']" waapiCollaborators "''opacity''"
          "\<lparr> getVelocity = Num 0,
             owner = Some \<lparr> getProps = [(''onUpdate'', Fun (External 3))] \<rparr> \<rparr>" "[]"]
    acceleration_only_when_eligible
      [of "[''opacity'']" waapiCollaborators "''x''" ownedValue "[]"]
  by (simp add: collaborator_defs property_simps)

section \<open>The two call shapes of transform\<close>

text \<open>Reading the argument list.\<close>

lemma elementAt_Cons_0: "elementAt (a # xs) 0 = a"
  by (simp add: elementAt_def)

lemma elementAt_Cons_pos: "0 < i \<Longrightarrow> elementAt (a # xs) i = elementAt xs (i - 1)"
  by (auto simp add: elementAt_def nat_diff_distrib' nth_Cons split: nat.splits)

lemma elementAt_negative: "i < 0 \<Longrightarrow> elementAt xs i = Undefined"
  by (simp add: elementAt_def)

lemma elementAt_Nil: "elementAt [] i = Undefined"
  by (auto simp add: elementAt_def)

lemmas elementAt_simps = elementAt_Cons_0 elementAt_Cons_pos elementAt_negative elementAt_Nil

text \<open>The two shapes of a call, by its first argument.\<close>

lemma transform_curried:
  "transform interp (Arr xs # rest) =
     (case interpolatorOf interp (Arr xs) (elementAt rest 0) (elementAt rest 1) of
        Inl e \<Rightarrow> Inl e
      | Inr interpolator \<Rightarrow> Inr (Interpolator interpolator))"
  by (simp add: transform_def Let_def elementAt_simps cong: sum.case_cong)

lemma transform_immediate:
  "\<not> isArray a \<Longrightarrow>
   transform interp (a # rest) =
     (case interpolatorOf interp (elementAt rest 0) (elementAt rest 1) (elementAt rest 2) of
        Inl e \<Rightarrow> Inl e
      | Inr interpolator \<Rightarrow>
          (case interpolator a of
             Inl e \<Rightarrow> Inl e
           | Inr result \<Rightarrow> Inr (Value result)))"
  by (simp add: transform_def Let_def elementAt_simps cong: sum.case_cong)

text \<open>
  C8. For every \<open>interpolate\<close>, input value, input range, output range and
  remaining arguments (the options, given or omitted), calling the result of the curried
  shape on the input value gives what the immediate shape returns. The shape is chosen by
  the first argument: an array never yields a value, a number never yields an
  interpolator.
\<close>

theorem curried_equals_immediate:
  "applyTransformed (transform interp (Arr inputRange # outputRange # rest)) (Num v)
     = valueOf (transform interp (Num v # Arr inputRange # outputRange # rest)) \<and>
   (\<forall>r. transform interp (Arr inputRange # rest') \<noteq> Inr (Value r)) \<and>
   (\<forall>f. transform interp (Num v # rest') \<noteq> Inr (Interpolator f))"
  by (simp add: transform_curried transform_immediate applyTransformed_def valueOf_def
        elementAt_simps split: sum.splits)

text \<open>
  C9. With the interpolation algorithm of the spec, for the input range [0, 100] and the
  output range [0, 1]: 50 gives 0.5; 150 gives 1 with \<open>clamp: true\<close> and 1.5 with
  \<open>clamp: false\<close>; with the option omitted 150 gives 1 and -50 gives 0, the nearest
  boundary outputs.
\<close>

theorem transform_examples:
  "transform (interpolate ext) [Num 50, Arr [Num 0, Num 100], Arr [Num 0, Num 1]]
     = Inr (Value (Num (1/2))) \<and>
   transform (interpolate ext)
     [Num 150, Arr [Num 0, Num 100], Arr [Num 0, Num 1], Obj [(''clamp'', Bool True)]]
     = Inr (Value (Num 1)) \<and>
   transform (interpolate ext)
     [Num 150, Arr [Num 0, Num 100], Arr [Num 0, Num 1], Obj [(''clamp'', Bool False)]]
     = Inr (Value (Num (3/2))) \<and>
   transform (interpolate ext) [Num 150, Arr [Num 0, Num 100], Arr [Num 0, Num 1]]
     = Inr (Value (Num 1)) \<and>
   transform (interpolate ext) [Num (- 50), Arr [Num 0, Num 100], Arr [Num 0, Num 1]]
     = Inr (Value (Num 0))"
  by (simp add: interpolate_defs property_simps)

section \<open>Detecting a custom mixer\<close>

lemma getMixer_cases:
  "getMixer v =
     (case v of
        Null \<Rightarrow> Inl TypeError
      | Obj ps \<Rightarrow> Inr (if truthy (property ps ''mix'') then property ps ''mix'' else Undefined)
      | _ \<Rightarrow> Inr Undefined)"
  by (cases v) (simp_all add: getMixer_def isCustomValueType_def)

lemma interpolatorOf_null_first:
  "interpolatorOf interp inputRange (Arr (Null # rest)) options = Inl TypeError"
  by (simp add: interpolatorOf_def elementAt_simps getMixer_cases)

lemma transform_null_first:
  assumes "elementAt args (if isArray (elementAt args 0) then 1 else 2) = Arr (Null # rest)"
  shows "transform interp args = Inl TypeError"
proof (cases "isArray (elementAt args 0)")
  case True
  with assms have "elementAt args 1 = Arr (Null # rest)" by simp
  with True show ?thesis
    by (simp add: transform_def Let_def interpolatorOf_null_first)
next
  case False
  with assms have "elementAt args 2 = Arr (Null # rest)" by simp
  with False show ?thesis
    by (simp add: transform_def Let_def interpolatorOf_null_first)
qed

text \<open>
  C10. Every call of \<open>transform\<close>, in either shape, whose output range is an array with
  first element \<open>null\<close> throws a TypeError. The detected mixer of \<open>null\<close> is that
  error; the detected mixer of an object is its \<open>mix\<close> property when that is truthy and
  \<open>undefined\<close> otherwise; for every other first element it is \<open>undefined\<close>.
\<close>

theorem null_first_output_raises_TypeError:
  "(elementAt args (if isArray (elementAt args 0) then 1 else 2) = Arr (Null # rest) \<longrightarrow>
      transform interp args = Inl TypeError) \<and>
   getMixer Null = Inl TypeError \<and>
   getMixer (Obj ps) =
     Inr (if truthy (property ps ''mix'') then property ps ''mix'' else Undefined) \<and>
   (v \<noteq> Null \<longrightarrow> (\<forall>ps. v \<noteq> Obj ps) \<longrightarrow> getMixer v = Inr Undefined)"
proof (intro conjI impI)
  assume "elementAt args (if isArray (elementAt args 0) then 1 else 2) = Arr (Null # rest)"
  then show "transform interp args = Inl TypeError"
    by (rule transform_null_first)
next
  show "getMixer Null = Inl TypeError"
    by (simp add: getMixer_cases)
next
  show "getMixer (Obj ps) =
          Inr (if truthy (property ps ''mix'') then property ps ''mix'' else Undefined)"
    by (simp add: getMixer_cases)
next
  assume "v \<noteq> Null" and "\<forall>ps. v \<noteq> Obj ps"
  then show "getMixer v = Inr Undefined"
    by (cases v) (simp_all add: getMixer_cases)
qed

theorem null_first_output_raises_TypeError_witness:
  "transform (interpolate linearExternals) [Num 50, Arr [Num 0, Num 100], Arr [Null, Num 1]]
     = Inl TypeError \<and>
   transform (interpolate linearExternals) [Arr [Num 0, Num 100], Arr [Null, Num 1]]
     = Inl TypeError \<and>
   getMixer (Num 1) = Inr Undefined \<and>
   getMixer (Arr []) = Inr Undefined"
  using
    null_first_output_raises_TypeError
      [of "[Num 50, Arr [Num 0, Num 100], Arr [Null, Num 1]]" "[Num 1]"
          "interpolate linearExternals" "[]" "Num 1"]
    null_first_output_raises_TypeError
      [of "[Arr [Num 0, Num 100], Arr [Null, Num 1]]" "[Num 1]"
          "interpolate linearExternals" "[]" "Arr []"]
  by (simp add: elementAt_simps)

end
